theory Spec2Isabelle
  imports Main "HOL-Library.AList"
begin

section \<open>Lutris configuration v2: cascading lookups\<close>

text \<open>
  A shallow embedding of \<^verbatim>\<open>lutris/config2.py\<close> (CascadingProxy, CascadingConfig,
  ConfigFile, GameConfig, TempGameConfig) and of the identifier setter of
  \<^verbatim>\<open>lutris/config.py\<close> (LutrisConfig.game_config_id).

  Python dictionaries are mutable objects that several attributes may share
  (\<^verbatim>\<open>self.data\<close> and \<^verbatim>\<open>self.config\<close>, or \<^verbatim>\<open>self.data\<close> and
  \<^verbatim>\<open>self.config.this\<close>), so they live in an explicit heap and are named by references.
  A dictionary is an association list: \<^const>\<open>map_of\<close> reads it, \<open>AList.update\<close> is
  \<^verbatim>\<open>d[k] = v\<close> (the position of an existing key is kept, a new key is appended) and
  \<open>AList.delete\<close> is \<^verbatim>\<open>del d[k]\<close>.
\<close>

subsection \<open>Values, exceptions, dictionaries, heap\<close>

type_synonym key = string
type_synonym ref = nat
type_synonym 'v pydict = "(key \<times> 'v) list"

datatype val = VNone | VBool bool | VInt int | VStr string | VList "val list" | VDict ref

text \<open>
  The exceptions the code raises or provokes. The specification calls \<open>KeyError\<close>
  LookupMiss, the \<open>ValueError\<close> of \<^verbatim>\<open>__setitem__\<close> ValidationError and the plain
  \<open>Exception\<close> of the identifier setter ImmutableIdentifierError.
\<close>

datatype error = KeyError | ValueError | NameError | AttributeError | TypeError
  | IOError | Exception | OtherError string

definition dict_contains :: "'v pydict \<Rightarrow> key \<Rightarrow> bool" where
  "dict_contains d k = (map_of d k \<noteq> None)"

definition dict_getitem :: "'v pydict \<Rightarrow> key \<Rightarrow> error + 'v" where
  "dict_getitem d k = (case map_of d k of Some v \<Rightarrow> Inr v | None \<Rightarrow> Inl KeyError)"

definition dict_setitem :: "'v pydict \<Rightarrow> key \<Rightarrow> 'v \<Rightarrow> 'v pydict" where
  "dict_setitem d k v = AList.update k v d"

definition dict_delitem :: "'v pydict \<Rightarrow> key \<Rightarrow> error + 'v pydict" where
  "dict_delitem d k = (if dict_contains d k then Inr (AList.delete k d) else Inl KeyError)"

record heap =
  dicts :: "ref \<Rightarrow> val pydict"
  fresh :: ref

definition heap_set :: "heap \<Rightarrow> ref \<Rightarrow> val pydict \<Rightarrow> heap" where
  "heap_set H r d = H\<lparr>dicts := (dicts H)(r := d)\<rparr>"

definition alloc :: "heap \<Rightarrow> val pydict \<Rightarrow> ref \<times> heap" where
  "alloc H d = (fresh H, H\<lparr>dicts := (dicts H)(fresh H := d), fresh := Suc (fresh H)\<rparr>)"

subsection \<open>Option definitions\<close>

text \<open>
  One entry of an option list is a dictionary with the keys \<^verbatim>\<open>option\<close>,
  \<^verbatim>\<open>default\<close>, \<^verbatim>\<open>getter\<close>, \<^verbatim>\<open>cascade\<close>, \<^verbatim>\<open>transform\<close> and
  \<^verbatim>\<open>validate\<close>; an absent key is \<open>None\<close>. The functions stored under
  \<^verbatim>\<open>getter\<close>, \<^verbatim>\<open>transform\<close> and \<^verbatim>\<open>validate\<close> are named by values of
  a type \<open>'c\<close> and run by a \<open>callbacks\<close> record (below).
  \<^verbatim>\<open>makedef\<close> builds the OrderedDict from the option list.
\<close>

record 'c optdef =
  od_option :: key
  od_default :: "val option"
  od_getter :: "'c option"
  od_cascade :: "bool option"
  od_transform :: "'c option"
  od_validate :: "'c option"

definition makedef :: "'c optdef list \<Rightarrow> 'c optdef pydict" where
  "makedef options = fold (\<lambda>opt d. dict_setitem d (od_option opt) opt) options []"

subsection \<open>CascadingConfig objects\<close>

text \<open>
  The attributes of a CascadingConfig. \<open>config_this\<close> is the dictionary that
  \<^verbatim>\<open>self.config\<close> reads and writes locally: without a parent \<^verbatim>\<open>cascade\<close> returns
  the dictionary itself, so it is \<^verbatim>\<open>self.config\<close>; with a parent it is the \<^verbatim>\<open>this\<close>
  of the CascadingProxy, whose \<^verbatim>\<open>parent\<close> is the parent config (both are set once, in
  \<^verbatim>\<open>__init__\<close>, from the same argument). \<open>defn\<close> is \<^verbatim>\<open>self.definition\<close>.
\<close>

record 'c obj =
  data :: ref
  defn :: "'c optdef pydict"
  config_this :: ref
  defaults :: "val pydict"
  validate_cache :: "'c pydict"
  getter_cache :: "'c pydict"
  cascade_cache :: "val pydict"

datatype 'c config = Config (obj: "'c obj") (parent: "'c config option")

text \<open>
  User functions are run by the callbacks record. They see the heap, the config and the
  key; they may raise, and they are taken not to mutate the configuration.
\<close>

record 'c callbacks =
  run_getter :: "'c \<Rightarrow> heap \<Rightarrow> 'c config \<Rightarrow> key \<Rightarrow> error + val"
  run_transform :: "'c \<Rightarrow> heap \<Rightarrow> 'c config \<Rightarrow> key \<Rightarrow> val \<Rightarrow> error + val"
  run_validate :: "'c \<Rightarrow> heap \<Rightarrow> 'c config \<Rightarrow> key \<Rightarrow> val \<Rightarrow> error + bool"

subsection \<open>Access\<close>

text \<open>
  \<open>proxy_contains\<close> is \<^verbatim>\<open>CascadingProxy.__contains__\<close> and \<open>contains\<close> is
  \<^verbatim>\<open>CascadingConfig.__contains__\<close> (\<^verbatim>\<open>key in self.config\<close>).
\<close>

fun contains :: "heap \<Rightarrow> 'c config \<Rightarrow> key \<Rightarrow> bool"
  and proxy_contains :: "heap \<Rightarrow> ref \<Rightarrow> 'c config \<Rightarrow> key \<Rightarrow> bool" where
  "contains H (Config s None) k = dict_contains (dicts H (config_this s)) k"
| "contains H (Config s (Some p)) k = proxy_contains H (config_this s) p k"
| "proxy_contains H this p k = (dict_contains (dicts H this) k \<or> contains H p k)"

text \<open>
  The handler \<^verbatim>\<open>except KeyError: if key in self.defaults: return self.defaults[key]; raise\<close>
  around a result.
\<close>

definition except_KeyError :: "val pydict \<Rightarrow> key \<Rightarrow> error + val \<Rightarrow> error + val" where
  "except_KeyError dflts k r =
     (if r = Inl KeyError
      then (case map_of dflts k of Some d \<Rightarrow> Inr d | None \<Rightarrow> Inl KeyError)
      else r)"

text \<open>
  \<open>getitem\<close> is \<^verbatim>\<open>CascadingConfig.__getitem__\<close>, \<open>config_getitem\<close> is
  \<^verbatim>\<open>self.config[key]\<close> and \<open>proxy_getitem\<close> is \<^verbatim>\<open>CascadingProxy.__getitem__\<close>,
  whose parent is a config, so that a miss in \<^verbatim>\<open>this\<close> reads the parent with the
  parent's own \<^verbatim>\<open>__getitem__\<close>.
\<close>

fun getitem :: "'c callbacks \<Rightarrow> heap \<Rightarrow> 'c config \<Rightarrow> key \<Rightarrow> error + val"
  and config_getitem :: "'c callbacks \<Rightarrow> heap \<Rightarrow> 'c config \<Rightarrow> key \<Rightarrow> error + val"
  and proxy_getitem :: "'c callbacks \<Rightarrow> heap \<Rightarrow> ref \<Rightarrow> 'c config \<Rightarrow> key \<Rightarrow> error + val" where
  "getitem cb H (Config s par) k =
     (case map_of (getter_cache s) k of
        Some getter \<Rightarrow> except_KeyError (defaults s) k (run_getter cb getter H (Config s par) k)
      | None \<Rightarrow> except_KeyError (defaults s) k (config_getitem cb H (Config s par) k))"
| "config_getitem cb H (Config s None) k = dict_getitem (dicts H (config_this s)) k"
| "config_getitem cb H (Config s (Some p)) k = proxy_getitem cb H (config_this s) p k"
| "proxy_getitem cb H this p k =
     (if dict_contains (dicts H this) k then dict_getitem (dicts H this) k
      else getitem cb H p k)"

subsection \<open>Special getters\<close>

text \<open>
  \<^verbatim>\<open>cascade_getter\<close>. The argument \<^verbatim>\<open>{}\<close> of \<^verbatim>\<open>setdefault\<close> is allocated
  before the call; it is stored only if the key is absent. A CascadingConfig is always
  true (the class has neither \<^verbatim>\<open>__bool__\<close> nor \<^verbatim>\<open>__len__\<close>), so with a parent
  the code evaluates \<^verbatim>\<open>self.parent.get_cascade\<close>, an attribute that no class of the
  module has: AttributeError, after the store was already changed. The result is the
  returned value or the exception, the object and the heap.
\<close>

definition dict_setdefault :: "heap \<Rightarrow> ref \<Rightarrow> key \<Rightarrow> heap" where
  "dict_setdefault H r k =
     (let (new, H') = alloc H []
      in if dict_contains (dicts H' r) k then H'
         else heap_set H' r (dict_setitem (dicts H' r) k (VDict new)))"

definition cascade_getter :: "heap \<Rightarrow> 'c config \<Rightarrow> key \<Rightarrow> (error + val) \<times> 'c config \<times> heap" where
  "cascade_getter H c k =
     (let s = obj c in
      if \<not> dict_contains (cascade_cache s) k then
        (let H' = dict_setdefault H (data s) k in
         case parent c of
           Some p \<Rightarrow> (Inl AttributeError, c, H')
         | None \<Rightarrow>
             (case dict_getitem (dicts H' (data s)) k of
                Inl e \<Rightarrow> (Inl e, c, H')
              | Inr cas \<Rightarrow>
                  (let s' = s\<lparr>cascade_cache := dict_setitem (cascade_cache s) k cas\<rparr>
                   in (dict_getitem (cascade_cache s') k, Config s' (parent c), H'))))
      else (dict_getitem (cascade_cache s) k, c, H))"

text \<open>
  \<^verbatim>\<open>transform_getter\<close>. The function \<^verbatim>\<open>self.definition[key]["transform"]\<close> is
  looked up in this level's own definition before its arguments are evaluated; an absent
  key reads the defaults with \<^verbatim>\<open>self.defaults.get(key, None)\<close>.
\<close>

definition transform_getter :: "'c callbacks \<Rightarrow> heap \<Rightarrow> 'c config \<Rightarrow> key \<Rightarrow> error + val" where
  "transform_getter cb H c k =
     (if contains H c k then
        (case dict_getitem (defn (obj c)) k of
           Inl e \<Rightarrow> Inl e
         | Inr d \<Rightarrow>
             (case od_transform d of
                None \<Rightarrow> Inl KeyError
              | Some t \<Rightarrow>
                  (case config_getitem cb H c k of
                     Inl e \<Rightarrow> Inl e
                   | Inr v \<Rightarrow> run_transform cb t H c k v)))
      else Inr (case map_of (defaults (obj c)) k of Some d \<Rightarrow> d | None \<Rightarrow> VNone))"

subsection \<open>Modification\<close>


definition proxy_delitem :: "heap \<Rightarrow> ref \<Rightarrow> key \<Rightarrow> error + heap" where
  "proxy_delitem H this k =
     (case dict_delitem (dicts H this) k of Inl e \<Rightarrow> Inl e | Inr d \<Rightarrow> Inr (heap_set H this d))"


definition delitem :: "heap \<Rightarrow> 'c config \<Rightarrow> key \<Rightarrow> error + heap" where
  "delitem H c k = proxy_delitem H (config_this (obj c)) k"

text \<open>
  \<^verbatim>\<open>replace\<close>: \<^verbatim>\<open>self.data = other\<close>, and \<^verbatim>\<open>self.config.this = other\<close> only
  if there is a parent. Without a parent \<^verbatim>\<open>self.config\<close> is left as it was.
\<close>

definition replace :: "'c config \<Rightarrow> ref \<Rightarrow> 'c config" where
  "replace c other =
     (let s = (obj c)\<lparr>data := other\<rparr>
      in if parent c \<noteq> None then Config (s\<lparr>config_this := other\<rparr>) (parent c)
         else Config s (parent c))"

subsection \<open>Definition caches\<close>

text \<open>
  \<^verbatim>\<open>build_definition_cache(name)\<close>: the parent's cache first, then this level's
  items in order. The argument \<open>name\<close> selects the entry of an option definition
  (\<open>od_default\<close> for \<^verbatim>\<open>"default"\<close>, \<open>od_validate\<close> for \<^verbatim>\<open>"validate"\<close>).
\<close>

definition cache_step :: "('c optdef \<Rightarrow> 'a option) \<Rightarrow> key \<times> 'c optdef \<Rightarrow> 'a pydict \<Rightarrow> 'a pydict" where
  "cache_step name item cache =
     (case name (snd item) of Some x \<Rightarrow> dict_setitem cache (fst item) x | None \<Rightarrow> cache)"

fun build_definition_cache :: "('c optdef \<Rightarrow> 'a option) \<Rightarrow> 'c config \<Rightarrow> 'a pydict" where
  "build_definition_cache name (Config s None) = fold (cache_step name) (defn s) []"
| "build_definition_cache name (Config s (Some p)) =
     fold (cache_step name) (defn s) (build_definition_cache name p)"

text \<open>
  \<^verbatim>\<open>build_getter_cache\<close>. The names \<^verbatim>\<open>cascade_getter\<close> and
  \<^verbatim>\<open>transform_getter\<close> are methods of the class, not names of the module or of the
  function's scope: evaluating either raises NameError, which ends the loop and the
  construction.
\<close>

fun getter_loop :: "'c optdef pydict \<Rightarrow> 'c pydict \<Rightarrow> error + 'c pydict" where
  "getter_loop [] cache = Inr cache"
| "getter_loop (item # items) cache =
     (case od_getter (snd item) of
        Some g \<Rightarrow> getter_loop items (dict_setitem cache (fst item) g)
      | None \<Rightarrow>
          if od_cascade (snd item) = Some True then Inl NameError
          else if od_transform (snd item) \<noteq> None then Inl NameError
          else getter_loop items cache)"

fun build_getter_cache :: "'c config \<Rightarrow> error + 'c pydict" where
  "build_getter_cache (Config s None) = getter_loop (defn s) []"
| "build_getter_cache (Config s (Some p)) =
     (case build_getter_cache p of Inl e \<Rightarrow> Inl e | Inr cache \<Rightarrow> getter_loop (defn s) cache)"

subsection \<open>Construction\<close>

text \<open>
  \<^verbatim>\<open>CascadingConfig.__init__(definition, data, parent)\<close>. The caches are built on
  the object as it is after the first four assignments.
\<close>

definition CascadingConfig_init ::
  "heap \<Rightarrow> 'c optdef pydict \<Rightarrow> ref option \<Rightarrow> 'c config option \<Rightarrow> error + 'c config \<times> heap" where
  "CascadingConfig_init H definition dat par =
     (let (d, H') = (case dat of None \<Rightarrow> alloc H [] | Some r \<Rightarrow> (r, H));
          self = Config \<lparr>data = d, defn = definition, config_this = d, defaults = [],
                         validate_cache = [], getter_cache = [], cascade_cache = []\<rparr> par;
          dc = build_definition_cache od_default self;
          vc = build_definition_cache od_validate self
      in case build_getter_cache self of
           Inl e \<Rightarrow> Inl e
         | Inr gc \<Rightarrow>
             Inr (Config \<lparr>data = d, defn = definition, config_this = d, defaults = dc,
                          validate_cache = vc, getter_cache = gc, cascade_cache = []\<rparr> par, H'))"

text \<open>
  Files. A file system maps a path to what \<^verbatim>\<open>yaml.load\<close> makes of the file there:
  an exception, \<^verbatim>\<open>None\<close> (an empty document) or a mapping; no entry means that
  \<^verbatim>\<open>os.path.exists\<close> is false and \<^verbatim>\<open>open\<close> raises.
\<close>

type_synonym filesystem = "string \<Rightarrow> (error + val pydict option) option"

definition load_file :: "filesystem \<Rightarrow> heap \<Rightarrow> string \<Rightarrow> error + ref option \<times> heap" where
  "load_file fs H filename =
     (case fs filename of
        None \<Rightarrow> Inl IOError
      | Some (Inl e) \<Rightarrow> Inl e
      | Some (Inr None) \<Rightarrow> Inr (None, H)
      | Some (Inr (Some d)) \<Rightarrow> (let (r, H') = alloc H d in Inr (Some r, H')))"

text \<open>
  \<^verbatim>\<open>ConfigFile.__init__(definition, filename, parent, data)\<close>; the result carries
  \<^verbatim>\<open>self.filename\<close>.
\<close>

definition ConfigFile_init ::
  "filesystem \<Rightarrow> heap \<Rightarrow> 'c optdef pydict \<Rightarrow> string \<Rightarrow> 'c config option \<Rightarrow> ref option
     \<Rightarrow> error + (string \<times> 'c config) \<times> heap" where
  "ConfigFile_init fs H definition filename par dat =
     (case (if dat = None \<and> fs filename \<noteq> None then load_file fs H filename else Inr (dat, H)) of
        Inl e \<Rightarrow> Inl e
      | Inr (dat', H') \<Rightarrow>
          (case CascadingConfig_init H' definition dat' par of
             Inl e \<Rightarrow> Inl e
           | Inr (c, H'') \<Rightarrow> Inr ((filename, c), H'')))"

subsection \<open>Game configs and the legacy wrapper\<close>

text \<open>
  \<^verbatim>\<open>os.path.join\<close> of two POSIX paths. \<open>CONFIG_DIR\<close> comes from
  \<^verbatim>\<open>lutris.settings\<close> and is a parameter here.
\<close>

definition path_join :: "string \<Rightarrow> string \<Rightarrow> string" where
  "path_join a b =
     (if (case b of [] \<Rightarrow> False | c # _ \<Rightarrow> c = CHR ''/'') then b
      else if a = [] \<or> last a = CHR ''/'' then a @ b
      else a @ ''/'' @ b)"

text \<open>
  The objects a wrapper holds: a ConfigFile (SystemConfig and RunnerConfig add nothing the
  model reads) with its filename, a GameConfig with its identifier and filename, or a
  TempGameConfig, the only class with \<^verbatim>\<open>assign_id\<close>.
\<close>

datatype 'c confobj =
    ConfigFile string "'c config"
  | GameConfig string string "'c config"
  | TempGameConfig "'c config"

text \<open>
  \<^verbatim>\<open>GameConfig.__init__(game_config_id, options, parent, data, definition)\<close>:
  \<^verbatim>\<open>makedef(options)\<close> is evaluated only when no definition is given, and then
  iterating \<^verbatim>\<open>None\<close> raises TypeError.
\<close>

definition GameConfig_init ::
  "string \<Rightarrow> filesystem \<Rightarrow> heap \<Rightarrow> string \<Rightarrow> 'c optdef list option \<Rightarrow> 'c config option
     \<Rightarrow> ref option \<Rightarrow> 'c optdef pydict option \<Rightarrow> error + 'c confobj \<times> heap" where
  "GameConfig_init CONFIG_DIR fs H game_config_id options par dat definition =
     (case (case definition of
              Some d \<Rightarrow> Inr d
            | None \<Rightarrow> (case options of None \<Rightarrow> Inl TypeError | Some os \<Rightarrow> Inr (makedef os))) of
        Inl e \<Rightarrow> Inl e
      | Inr d \<Rightarrow>
          (case ConfigFile_init fs H d
                  (path_join CONFIG_DIR (''games/'' @ game_config_id @ ''.yml'')) par dat of
             Inl e \<Rightarrow> Inl e
           | Inr ((filename, c), H') \<Rightarrow> Inr (GameConfig game_config_id filename c, H')))"

definition TempGameConfig_init ::
  "heap \<Rightarrow> 'c optdef list \<Rightarrow> 'c config option \<Rightarrow> error + 'c confobj \<times> heap" where
  "TempGameConfig_init H options par =
     (case CascadingConfig_init H (makedef options) None par of
        Inl e \<Rightarrow> Inl e
      | Inr (c, H') \<Rightarrow> Inr (TempGameConfig c, H'))"

definition assign_id ::
  "string \<Rightarrow> filesystem \<Rightarrow> heap \<Rightarrow> 'c config \<Rightarrow> string \<Rightarrow> error + 'c confobj \<times> heap" where
  "assign_id CONFIG_DIR fs H self game_config_id =
     GameConfig_init CONFIG_DIR fs H game_config_id None (parent self)
       (Some (data (obj self))) (Some (defn (obj self)))"

definition TEMP_CONFIG :: string where
  "TEMP_CONFIG = ''TEMP_CONFIG''"

text \<open>
  The attributes of a LutrisConfig that the identifier setter reads and writes.
  \<open>game_config_id\<close> is \<^verbatim>\<open>self._game_config_id\<close>; \<open>game_level\<close> is \<open>None\<close> when
  the wrapper has no such attribute (a wrapper of the system or runner level).
\<close>

record 'c LutrisConfig =
  game_config_id :: "string option"
  game_level :: "'c confobj option"
  config :: "'c confobj"

text \<open>
  The setter of the property \<^verbatim>\<open>game_config_id\<close>. Calling \<^verbatim>\<open>assign_id\<close> on an
  object that is not a TempGameConfig, or reading a \<^verbatim>\<open>game_level\<close> that was never
  set, raises AttributeError.
\<close>

definition game_config_id_setter ::
  "string \<Rightarrow> filesystem \<Rightarrow> heap \<Rightarrow> 'c LutrisConfig \<Rightarrow> string \<Rightarrow> error + 'c LutrisConfig \<times> heap" where
  "game_config_id_setter CONFIG_DIR fs H self v =
     (if game_config_id self = Some TEMP_CONFIG then
        (case game_level self of
           Some (TempGameConfig c) \<Rightarrow>
             (case assign_id CONFIG_DIR fs H c v of
                Inl e \<Rightarrow> Inl e
              | Inr (g, H') \<Rightarrow>
                  Inr (self\<lparr>game_config_id := Some v, game_level := Some g, config := g\<rparr>, H'))
         | _ \<Rightarrow> Inl AttributeError)
      else Inl Exception)"

subsection \<open>Vocabulary of the properties\<close>

text \<open>
  The definitions of this subsection are not code of the module; the theorems use them to
  speak about a chain of configs.

  \<open>most_specific name c k\<close> is the entry \<open>name\<close> that the catalog nearest to \<open>c\<close>
  (the deepest one) gives to the key, walking from \<open>c\<close> towards the root;
  \<open>root_most name c k\<close> is the entry of the catalog nearest to the root that gives one.
\<close>

fun most_specific :: "('c optdef \<Rightarrow> 'a option) \<Rightarrow> 'c config \<Rightarrow> key \<Rightarrow> 'a option" where
  "most_specific name (Config s par) k =
     (case (case map_of (defn s) k of Some d \<Rightarrow> name d | None \<Rightarrow> None) of
        Some x \<Rightarrow> Some x
      | None \<Rightarrow> (case par of None \<Rightarrow> None | Some p \<Rightarrow> most_specific name p k))"



text \<open>
  An option definition whose special getter \<^verbatim>\<open>build_getter_cache\<close> cannot name: no
  \<^verbatim>\<open>getter\<close>, and a true \<^verbatim>\<open>cascade\<close> or a \<^verbatim>\<open>transform\<close>; and a chain
  with such a definition at some level.
\<close>

definition unresolved_getter :: "'c optdef \<Rightarrow> bool" where
  "unresolved_getter d = (od_getter d = None \<and> (od_cascade d = Some True \<or> od_transform d \<noteq> None))"

fun chain_unresolved :: "'c config \<Rightarrow> bool" where
  "chain_unresolved (Config s None) = list_ex (\<lambda>item. unresolved_getter (snd item)) (defn s)"
| "chain_unresolved (Config s (Some p)) =
     (chain_unresolved p \<or> list_ex (\<lambda>item. unresolved_getter (snd item)) (defn s))"

text \<open>
  The local stores (\<^verbatim>\<open>self.data\<close>) of a config and of its ancestors, this level
  first, and whether some level stores a key.
\<close>

fun stores :: "'c config \<Rightarrow> ref list" where
  "stores (Config s None) = [data s]"
| "stores (Config s (Some p)) = data s # stores p"


text \<open>
  The state in which \<^verbatim>\<open>__init__\<close> leaves an object and its ancestors: the view
  \<^verbatim>\<open>self.config\<close> writes to \<^verbatim>\<open>self.data\<close>, and the three caches are the ones
  built from the definitions of the chain. Writing, deleting, and \<^verbatim>\<open>replace\<close> on a
  config with a parent, keep it.
\<close>

fun constructed :: "'c config \<Rightarrow> bool" where
  "constructed (Config s None) =
     (config_this s = data s \<and> distinct (map fst (defn s)) \<and>
      defaults s = build_definition_cache od_default (Config s None) \<and>
      validate_cache s = build_definition_cache od_validate (Config s None) \<and>
      build_getter_cache (Config s None) = Inr (getter_cache s))"
| "constructed (Config s (Some p)) =
     (config_this s = data s \<and> distinct (map fst (defn s)) \<and>
      defaults s = build_definition_cache od_default (Config s (Some p)) \<and>
      validate_cache s = build_definition_cache od_validate (Config s (Some p)) \<and>
      build_getter_cache (Config s (Some p)) = Inr (getter_cache s) \<and>
      constructed p)"

subsection \<open>A system, runner and game chain\<close>

text \<open>
  Concrete inputs. User functions are numbered: getter 0 raises KeyError, getter 1 returns
  a constant, every other getter raises TypeError; validator 0 accepts the non-negative
  integers, every other validator accepts everything; every transform wraps the value in a
  list.
\<close>

definition opt :: "key \<Rightarrow> nat optdef" where
  "opt k = \<lparr>od_option = k, od_default = None, od_getter = None, od_cascade = None,
            od_transform = None, od_validate = None\<rparr>"

definition ex_cb :: "nat callbacks" where
  "ex_cb =
     \<lparr>run_getter = (\<lambda>g H c k. if g = 0 then Inl KeyError
                               else if g = 1 then Inr (VStr ''computed'') else Inl TypeError),
      run_transform = (\<lambda>t H c k v. Inr (VList [v])),
      run_validate = (\<lambda>f H c k v. if f = 0 then Inr (case v of VInt i \<Rightarrow> 0 \<le> i | _ \<Rightarrow> False)
                                    else Inr True)\<rparr>"

definition system_options :: "nat optdef list" where
  "system_options =
     [(opt ''resolution'')\<lparr>od_default := Some (VStr ''native'')\<rparr>,
      (opt ''speed'')\<lparr>od_validate := Some 0\<rparr>,
      (opt ''banner'')\<lparr>od_default := Some (VStr ''none''), od_getter := Some 1\<rparr>,
      (opt ''missing'')\<lparr>od_default := Some (VStr ''fallback''), od_getter := Some 0\<rparr>]"

definition runner_options :: "nat optdef list" where
  "runner_options = [(opt ''arch'')\<lparr>od_default := Some (VStr ''x64'')\<rparr>]"

definition game_options :: "nat optdef list" where
  "game_options =
     [(opt ''resolution'')\<lparr>od_default := Some (VStr ''desktop'')\<rparr>,
      (opt ''speed'')\<lparr>od_validate := Some 1\<rparr>]"

definition getter_game_options :: "nat optdef list" where
  "getter_game_options = [(opt ''speed'')\<lparr>od_getter := Some 1\<rparr>]"

definition scaled_options :: "nat optdef list" where
  "scaled_options =
     [(opt ''speed'')\<lparr>od_transform := Some 0\<rparr>,
      (opt ''scale'')\<lparr>od_default := Some (VInt 1), od_transform := Some 0\<rparr>]"

definition transform_options :: "nat optdef list" where
  "transform_options = [(opt ''banner'')\<lparr>od_transform := Some 0\<rparr>]"

definition cascading_options :: "nat optdef list" where
  "cascading_options = [(opt ''env'')\<lparr>od_cascade := Some True\<rparr>]"

definition ex_heap :: heap where
  "ex_heap =
     \<lparr>dicts = (\<lambda>r. [])(10 := [(''theme'', VStr ''dark'')],
                        11 := [(''speed'', VInt 3)],
                        12 := [(''speed'', VInt 7)],
                        13 := [(''theme'', VStr ''light'')]),
      fresh = 14\<rparr>"

definition ex_system :: "nat config" where
  "ex_system =
     Config \<lparr>data = 10, defn = makedef system_options, config_this = 10,
             defaults = [(''resolution'', VStr ''native''), (''banner'', VStr ''none''),
                         (''missing'', VStr ''fallback'')],
             validate_cache = [(''speed'', 0)],
             getter_cache = [(''banner'', 1), (''missing'', 0)],
             cascade_cache = []\<rparr> None"

definition ex_runner :: "nat config" where
  "ex_runner =
     Config \<lparr>data = 11, defn = makedef runner_options, config_this = 11,
             defaults = [(''resolution'', VStr ''native''), (''banner'', VStr ''none''),
                         (''missing'', VStr ''fallback''), (''arch'', VStr ''x64'')],
             validate_cache = [(''speed'', 0)],
             getter_cache = [(''banner'', 1), (''missing'', 0)],
             cascade_cache = []\<rparr> (Some ex_system)"

definition ex_game :: "nat config" where
  "ex_game =
     Config \<lparr>data = 12, defn = makedef game_options, config_this = 12,
             defaults = [(''resolution'', VStr ''desktop''), (''banner'', VStr ''none''),
                         (''missing'', VStr ''fallback''), (''arch'', VStr ''x64'')],
             validate_cache = [(''speed'', 1)],
             getter_cache = [(''banner'', 1), (''missing'', 0)],
             cascade_cache = []\<rparr> (Some ex_runner)"

text \<open>
  Two more game levels over the same runner: one whose catalog gives \<^verbatim>\<open>speed\<close> a
  custom getter, and one constructed with the runner's own dictionary as its data.
\<close>

definition ex_getter_game :: "nat config" where
  "ex_getter_game =
     Config \<lparr>data = 12, defn = makedef getter_game_options, config_this = 12,
             defaults = [(''resolution'', VStr ''native''), (''banner'', VStr ''none''),
                         (''missing'', VStr ''fallback''), (''arch'', VStr ''x64'')],
             validate_cache = [(''speed'', 0)],
             getter_cache = [(''banner'', 1), (''missing'', 0), (''speed'', 1)],
             cascade_cache = []\<rparr> (Some ex_runner)"

definition ex_shared_game :: "nat config" where
  "ex_shared_game = Config ((obj ex_game)\<lparr>data := 11, config_this := 11\<rparr>) (Some ex_runner)"

definition ex_wrapper :: "nat LutrisConfig" where
  "ex_wrapper = \<lparr>game_config_id = Some TEMP_CONFIG, game_level = Some (TempGameConfig ex_game),
                  config = TempGameConfig ex_game\<rparr>"

section \<open>Properties\<close>

subsection \<open>The caches\<close>



lemma makedef_distinct: "distinct (map fst (makedef options))"
proof -
  have "distinct (map fst d) \<Longrightarrow>
        distinct (map fst (fold (\<lambda>opt d. dict_setitem d (od_option opt) opt) options d))" for d
    by (induction options arbitrary: d) (simp_all add: dict_setitem_def distinct_update)
  then show ?thesis by (simp add: makedef_def)
qed

text \<open>
  The getter loop either meets a definition whose getter it cannot name, and raises
  NameError, or it does what the loop of \<^verbatim>\<open>build_definition_cache\<close> does for the
  entry \<^verbatim>\<open>getter\<close>.
\<close>

lemma getter_loop_keys:
  "getter_loop items cache = Inr gc \<Longrightarrow> map_of cache k \<noteq> None \<Longrightarrow> map_of gc k \<noteq> None"
proof (induction items arbitrary: cache)
  case Nil
  then show ?case by simp
next
  case (Cons item items)
  then show ?case
    by (auto simp: dict_setitem_def update_conv' split: option.splits if_splits)
qed

lemma getter_loop_most_specific:
  "distinct (map fst items) \<Longrightarrow> getter_loop items cache = Inr gc \<Longrightarrow>
   map_of gc k =
     (case (case map_of items k of Some d \<Rightarrow> od_getter d | None \<Rightarrow> None) of
        Some x \<Rightarrow> Some x | None \<Rightarrow> map_of cache k)"
proof (induction items arbitrary: cache)
  case Nil
  then show ?case by simp
next
  case (Cons item items)
  obtain k' d where item: "item = (k', d)" by (cases item)
  from Cons.prems have notin: "k' \<notin> fst ` set items" and dist: "distinct (map fst items)"
    by (auto simp: item)
  have none: "map_of items k' = None" using notin by (simp add: map_of_eq_None_iff)
  show ?case
  proof (cases "od_getter d")
    case None
    with Cons.prems(2) have "getter_loop items cache = Inr gc"
      by (simp add: item split: if_splits)
    from Cons.IH [OF dist this] show ?thesis using None none
      by (auto simp: item split: option.splits)
  next
    case (Some g)
    with Cons.prems(2) have "getter_loop items (dict_setitem cache k' g) = Inr gc"
      by (simp add: item)
    from Cons.IH [OF dist this] show ?thesis using Some none
      by (auto simp: item dict_setitem_def update_conv' split: option.splits)
  qed
qed

lemma getter_loop_result:
  "getter_loop items cache =
     (if list_ex (\<lambda>item. unresolved_getter (snd item)) items then Inl NameError
      else Inr (fold (cache_step od_getter) items cache))"
  by (induction items arbitrary: cache)
     (auto simp: unresolved_getter_def cache_step_def split: option.splits)

lemma build_getter_cache_result:
  "build_getter_cache c =
     (if chain_unresolved c then Inl NameError else Inr (build_definition_cache od_getter c))"
  by (induction c rule: chain_unresolved.induct) (simp_all add: getter_loop_result)

lemma build_definition_cache_defn:
  "defn s = defn s' \<Longrightarrow>
   build_definition_cache name (Config s par) = build_definition_cache name (Config s' par)"
  by (cases par) simp_all

lemma build_getter_cache_defn:
  "defn s = defn s' \<Longrightarrow> build_getter_cache (Config s par) = build_getter_cache (Config s' par)"
  by (cases par) (simp_all split: sum.splits)

subsection \<open>Constructed configs\<close>



lemma constructed_linked: "constructed c \<Longrightarrow> config_this (obj c) = data (obj c)"
  by (cases c rule: constructed.cases) auto

lemma constructed_caches:
  "constructed (Config s par) \<Longrightarrow>
     config_this s = data s \<and>
     defaults s = build_definition_cache od_default (Config s par) \<and>
     validate_cache s = build_definition_cache od_validate (Config s par) \<and>
     build_getter_cache (Config s par) = Inr (getter_cache s)"
  by (cases par) simp_all

lemma constructed_cascade_cache:
  "constructed (Config s par) \<Longrightarrow> constructed (Config (s\<lparr>cascade_cache := x\<rparr>) par)"
  by (cases par) (simp_all split: sum.splits)

lemma constructed_parent_getter:
  "constructed (Config s (Some p)) \<Longrightarrow> map_of (getter_cache s) k = None \<Longrightarrow>
   map_of (getter_cache (obj p)) k = None"
proof -
  assume c: "constructed (Config s (Some p))" and n: "map_of (getter_cache s) k = None"
  obtain ps pp where p: "p = Config ps pp" by (cases p)
  from c have b: "build_getter_cache p = Inr (getter_cache ps)"
    by (cases pp) (auto simp: p)
  from c have "build_getter_cache (Config s (Some p)) = Inr (getter_cache s)" by simp
  with b have "getter_loop (defn s) (getter_cache ps) = Inr (getter_cache s)" by simp
  from getter_loop_keys [OF this, of k] n show ?thesis by (cases "map_of (getter_cache ps) k") (auto simp: p)
qed




text \<open>
  The constructor: when it returns, and what it returns; a constructed config can be
  constructed again from its own definition, store and parent.
\<close>

lemma CascadingConfig_init_result:
  "CascadingConfig_init H definition dat par =
     (let (d, H') = (case dat of None \<Rightarrow> alloc H [] | Some r \<Rightarrow> (r, H));
          self = Config \<lparr>data = d, defn = definition, config_this = d, defaults = [],
                         validate_cache = [], getter_cache = [], cascade_cache = []\<rparr> par
      in if chain_unresolved self then Inl NameError
         else Inr (Config \<lparr>data = d, defn = definition, config_this = d,
                     defaults = build_definition_cache od_default self,
                     validate_cache = build_definition_cache od_validate self,
                     getter_cache = build_definition_cache od_getter self,
                     cascade_cache = []\<rparr> par, H'))"
  by (simp add: CascadingConfig_init_def build_getter_cache_result Let_def split: prod.splits)

lemma CascadingConfig_init_constructed:
  assumes "CascadingConfig_init H definition dat par = Inr (c, H')"
    and "distinct (map fst definition)"
    and "case par of None \<Rightarrow> True | Some p \<Rightarrow> constructed p"
  shows "constructed c"
proof -
  obtain d H1 where a: "(case dat of None \<Rightarrow> alloc H [] | Some r \<Rightarrow> (r, H)) = (d, H1)"
    by (cases "case dat of None \<Rightarrow> alloc H [] | Some r \<Rightarrow> (r, H)")
  let ?s0 = "\<lparr>data = d, defn = definition, config_this = d, defaults = [],
              validate_cache = [], getter_cache = [], cascade_cache = []\<rparr>"
  from assms(1) obtain gc where gc: "build_getter_cache (Config ?s0 par) = Inr gc"
    and c: "c = Config \<lparr>data = d, defn = definition, config_this = d,
                defaults = build_definition_cache od_default (Config ?s0 par),
                validate_cache = build_definition_cache od_validate (Config ?s0 par),
                getter_cache = gc, cascade_cache = []\<rparr> par"
    by (auto simp: CascadingConfig_init_def a Let_def split: sum.splits)
  show ?thesis
    using gc assms(2,3) by (cases par) (auto simp: c split: sum.splits)
qed

lemma CascadingConfig_init_fresh_store:
  "CascadingConfig_init H definition None par = Inr (c, H') \<Longrightarrow>
   data (obj c) = fresh H \<and> dicts H' (data (obj c)) = [] \<and>
   (\<forall>r. r \<noteq> fresh H \<longrightarrow> dicts H' r = dicts H r)"
  by (auto simp: CascadingConfig_init_def alloc_def Let_def split: sum.splits)

lemma constructed_reinit:
  assumes "constructed c"
  shows "CascadingConfig_init H (defn (obj c)) (Some (data (obj c))) (parent c)
           = Inr (Config ((obj c)\<lparr>cascade_cache := []\<rparr>) (parent c), H)"
proof -
  obtain s par where c: "c = Config s par" by (cases c)
  let ?s0 = "\<lparr>data = data s, defn = defn s, config_this = data s, defaults = [],
              validate_cache = [], getter_cache = [], cascade_cache = []\<rparr>"
  have d: "defn ?s0 = defn s" by simp
  note cc = constructed_caches [OF assms [unfolded c]]
  have 1: "build_definition_cache od_default (Config ?s0 par) = defaults s"
    using build_definition_cache_defn [OF d, of od_default par] cc by simp
  have 2: "build_definition_cache od_validate (Config ?s0 par) = validate_cache s"
    using build_definition_cache_defn [OF d, of od_validate par] cc by simp
  have 3: "build_getter_cache (Config ?s0 par) = Inr (getter_cache s)"
    using build_getter_cache_defn [OF d, of par] cc by simp
  show ?thesis
    using cc by (simp add: c CascadingConfig_init_def 1 2 3)
qed

lemma ConfigFile_init_missing_file:
  assumes "fs filename = None"
  shows "ConfigFile_init fs H definition filename par None =
           (case CascadingConfig_init H definition None par of
              Inl e \<Rightarrow> Inl e | Inr (c, H') \<Rightarrow> Inr ((filename, c), H'))"
  using assms by (simp add: ConfigFile_init_def split: sum.splits)


lemma getitem_frame:
  "constructed p \<Longrightarrow> map_of (getter_cache (obj p)) k = None \<Longrightarrow> r \<notin> set (stores p) \<Longrightarrow>
   getitem cb (heap_set H r d) p k = getitem cb H p k"
proof (induction p rule: constructed.induct)
  case (1 s)
  then show ?case by (simp add: heap_set_def)
next
  case (2 s p)
  have pg: "map_of (getter_cache (obj p)) k = None"
    using constructed_parent_getter [OF "2.prems"(1), of k] "2.prems"(2) by simp
  have "getitem cb (heap_set H r d) p k = getitem cb H p k"
    using "2.IH" "2.prems" pg by simp
  then show ?case using "2.prems" by (simp add: heap_set_def)
qed


text \<open>\<^verbatim>\<open>replace\<close> on a config with a parent repoints the proxy; without one it does not.\<close>

lemma replace_with_parent:
  "parent c = Some p \<Longrightarrow>
   replace c other = Config ((obj c)\<lparr>data := other, config_this := other\<rparr>) (Some p)"
  by (simp add: replace_def Let_def)

lemma replace_without_parent:
  "parent c = None \<Longrightarrow> replace c other = Config ((obj c)\<lparr>data := other\<rparr>) None"
  by (simp add: replace_def Let_def)

lemma replace_constructed:
  "constructed c \<Longrightarrow> parent c = Some p \<Longrightarrow> constructed (replace c other)"
  by (cases c) (auto simp: replace_with_parent split: sum.splits)

lemma replace_reads_new_store:
  "parent c = Some p \<Longrightarrow>
   config_getitem cb H (replace c other) k =
     (case map_of (dicts H other) k of Some v \<Rightarrow> Inr v | None \<Rightarrow> getitem cb H p k)"
  by (simp add: replace_with_parent dict_contains_def dict_getitem_def split: option.splits)

text \<open>
  \<^verbatim>\<open>transform_getter\<close> on a key that is absent from the whole cascade returns the
  default, or \<^verbatim>\<open>None\<close>; it does not raise.
\<close>

lemma transform_getter_absent:
  "\<not> contains H c k \<Longrightarrow>
   transform_getter cb H c k = Inr (case map_of (defaults (obj c)) k of Some d \<Rightarrow> d | None \<Rightarrow> VNone)"
  by (simp add: transform_getter_def)

subsection \<open>The example chain is what the constructor builds\<close>

lemmas ex_defs = ex_system_def ex_runner_def ex_game_def makedef_def
      system_options_def runner_options_def game_options_def opt_def dict_setitem_def cache_step_def
      ex_heap_def ex_cb_def

lemma ex_system_init:
  "CascadingConfig_init ex_heap (makedef system_options) (Some 10) None = Inr (ex_system, ex_heap)"
  by (simp add: CascadingConfig_init_def ex_system_def makedef_def system_options_def opt_def
      dict_setitem_def cache_step_def)

lemma ex_runner_init:
  "CascadingConfig_init ex_heap (makedef runner_options) (Some 11) (Some ex_system) = Inr (ex_runner, ex_heap)"
  by (simp add: CascadingConfig_init_def ex_system_def ex_runner_def makedef_def system_options_def
      runner_options_def opt_def dict_setitem_def cache_step_def)


lemma ex_game_constructed: "constructed ex_game"
  by (simp add: ex_system_def ex_runner_def ex_game_def makedef_def
      system_options_def runner_options_def game_options_def opt_def dict_setitem_def cache_step_def)

subsection \<open>Claims\<close>

text \<open>
  C1. Reading a key through a CascadingConfig (\<^verbatim>\<open>__getitem__\<close>): if the key has an
  entry in the getter cache, that getter is invoked; otherwise the read goes to the local
  store first and, on a miss there, to the parent's own read (a KeyError when there is no
  parent). In both cases a result that is a KeyError falls back to \<^verbatim>\<open>defaults[key]\<close>
  when the key has a default and is raised again otherwise; every other result is returned
  as it is.
\<close>

theorem getitem_reads:
  "getitem cb H (Config s par) k =
     (let r = (case map_of (getter_cache s) k of
                 Some getter \<Rightarrow> run_getter cb getter H (Config s par) k
               | None \<Rightarrow>
                   (case map_of (dicts H (config_this s)) k of
                      Some v \<Rightarrow> Inr v
                    | None \<Rightarrow> (case par of None \<Rightarrow> Inl KeyError | Some p \<Rightarrow> getitem cb H p k)))
      in if r = Inl KeyError
         then (case map_of (defaults s) k of Some d \<Rightarrow> Inr d | None \<Rightarrow> Inl KeyError)
         else r)"
  by (cases par)
     (simp_all add: except_KeyError_def dict_getitem_def dict_contains_def Let_def
        split: option.splits)

text \<open>
  On the example chain: a getter that raises KeyError falls back to the default, a getter
  that returns is not overridden, a stored key is read locally, a key stored only at the
  root is read through the chain, and an unknown key is a KeyError.
\<close>

theorem getitem_reads_witness:
  "getitem ex_cb ex_heap ex_game ''missing'' = Inr (VStr ''fallback'') \<and>
   getitem ex_cb ex_heap ex_game ''banner'' = Inr (VStr ''computed'') \<and>
   getitem ex_cb ex_heap ex_game ''speed'' = Inr (VInt 7) \<and>
   getitem ex_cb ex_heap ex_game ''theme'' = Inr (VStr ''dark'') \<and>
   getitem ex_cb ex_heap ex_game ''nothing'' = Inl KeyError"
  unfolding ex_game_def ex_runner_def ex_system_def
  by (simp add: getitem_reads ex_heap_def ex_cb_def del: getitem.simps)




text \<open>
  C3. Constructing a config whose definition marks a key as cascading raises NameError in
  \<^verbatim>\<open>build_getter_cache\<close>, so no read of such a key takes place; and
  \<^verbatim>\<open>cascade_getter\<close> called on a config with a parent raises AttributeError
  (\<^verbatim>\<open>get_cascade\<close> does not exist).
\<close>

theorem cascading_key_raises:
  "CascadingConfig_init ex_heap (makedef cascading_options) (Some 11) (Some ex_system) = Inl NameError \<and>
   fst (cascade_getter ex_heap ex_runner ''env'') = Inl AttributeError"
  by (simp add: CascadingConfig_init_def cascading_options_def cascade_getter_def ex_defs Let_def
        dict_contains_def)

text \<open>
  C4. A catalog gives keys a transform and, as the definitions require, no getter: here
  the game catalog does so for \<^verbatim>\<open>speed\<close>, which the game level stores, and for
  \<^verbatim>\<open>scale\<close>, which has a default. Constructing the config raises NameError in
  \<^verbatim>\<open>build_getter_cache\<close>, so constructing and then reading either key returns
  neither the transformed value nor the default.
\<close>

theorem transform_key_raises:
  "CascadingConfig_init ex_heap (makedef scaled_options) (Some 12) (Some ex_runner) = Inl NameError \<and>
   (case CascadingConfig_init ex_heap (makedef scaled_options) (Some 12) (Some ex_runner) of
      Inl e \<Rightarrow> Inl e
    | Inr (c, H) \<Rightarrow> getitem ex_cb H c ''speed'') = Inl NameError \<and>
   (case CascadingConfig_init ex_heap (makedef scaled_options) (Some 12) (Some ex_runner) of
      Inl e \<Rightarrow> Inl e
    | Inr (c, H) \<Rightarrow> getitem ex_cb H c ''scale'') = Inl NameError"
  by (simp add: CascadingConfig_init_def scaled_options_def ex_defs)

text \<open>
  C5. \<^verbatim>\<open>replace\<close> on a config without a parent sets \<^verbatim>\<open>self.data\<close> and leaves
  \<^verbatim>\<open>self.config\<close>, the old dictionary, in place: after replacing the system store
  (\<^verbatim>\<open>theme: dark\<close>) by a mapping with \<^verbatim>\<open>theme: light\<close>, a read at the
  system level, and a read through a runner on top of it, still return \<^verbatim>\<open>dark\<close>.
\<close>

theorem replace_root_reads_old_store:
  "CascadingConfig_init ex_heap (makedef system_options) (Some 10) None = Inr (ex_system, ex_heap) \<and>
   data (obj (replace ex_system 13)) = 13 \<and>
   dicts ex_heap 13 = [(''theme'', VStr ''light'')] \<and>
   getitem ex_cb ex_heap (replace ex_system 13) ''theme'' = Inr (VStr ''dark'') \<and>
   getitem ex_cb ex_heap (Config (obj ex_runner) (Some (replace ex_system 13))) ''theme''
     = Inr (VStr ''dark'')"
  by (simp add: ex_system_init)
     (simp add: replace_def ex_defs dict_contains_def dict_getitem_def except_KeyError_def)

text \<open>
  C6 (as the code has it). Deleting a key on a proxy removes it from the proxy's local
  dictionary, and deleting a key on a constructed config removes it from the config's local
  store; no other dictionary changes, and the deletion raises KeyError when the key is not
  locally present, whatever the parent holds. Consequently, for a key that has no special
  getter at the game level and a game store that no ancestor shares: when the game level
  stores the key and the runner level reads the value \<open>v\<close> for it, then after the
  deletion the game level reads \<open>v\<close>, as the runner level still does.
\<close>

theorem delitem_local:
  assumes "constructed c"
  shows "delitem H c k =
     (if dict_contains (dicts H (data (obj c))) k
      then Inr (heap_set H (data (obj c)) (AList.delete k (dicts H (data (obj c)))))
      else Inl KeyError)
   \<and> proxy_delitem H this k =
     (if dict_contains (dicts H this) k
      then Inr (heap_set H this (AList.delete k (dicts H this)))
      else Inl KeyError)
   \<and> (\<forall>r. r \<noteq> this \<longrightarrow> dicts (heap_set H this (AList.delete k (dicts H this))) r = dicts H r)
   \<and> (parent c = Some p \<and> data (obj c) \<notin> set (stores p) \<and>
      map_of (getter_cache (obj c)) k = None \<and>
      dict_contains (dicts H (data (obj c))) k \<and> getitem cb H p k = Inr v
      \<longrightarrow> (\<exists>H'. delitem H c k = Inr H' \<and> getitem cb H' c k = Inr v \<and>
                 getitem cb H' p k = Inr v \<and>
                 \<not> dict_contains (dicts H' (data (obj c))) k \<and>
                 (\<forall>r. r \<noteq> data (obj c) \<longrightarrow> dicts H' r = dicts H r)))"
proof (intro conjI impI allI)
  show "delitem H c k =
     (if dict_contains (dicts H (data (obj c))) k
      then Inr (heap_set H (data (obj c)) (AList.delete k (dicts H (data (obj c)))))
      else Inl KeyError)"
    using constructed_linked [OF assms]
    by (simp add: delitem_def proxy_delitem_def dict_delitem_def)
  show "proxy_delitem H this k =
     (if dict_contains (dicts H this) k
      then Inr (heap_set H this (AList.delete k (dicts H this)))
      else Inl KeyError)"
    by (simp add: proxy_delitem_def dict_delitem_def)
  show "dicts (heap_set H this (AList.delete k (dicts H this))) r = dicts H r" if "r \<noteq> this" for r
    using that by (simp add: heap_set_def)
next
  assume a: "parent c = Some p \<and> data (obj c) \<notin> set (stores p) \<and>
      map_of (getter_cache (obj c)) k = None \<and>
      dict_contains (dicts H (data (obj c))) k \<and> getitem cb H p k = Inr v"
  obtain s where c: "c = Config s (Some p)" using a by (cases c) auto
  let ?H' = "heap_set H (data s) (AList.delete k (dicts H (data s)))"
  have lk: "config_this s = data s" and cp: "constructed p" using assms c by auto
  have pg: "map_of (getter_cache (obj p)) k = None"
    using constructed_parent_getter [of s p k] assms a c by simp
  have nin: "data s \<notin> set (stores p)" using a c by simp
  have pr: "getitem cb ?H' p k = Inr v"
    using getitem_frame [OF cp pg nin] a by simp
  have gone: "\<not> dict_contains (dicts ?H' (data s)) k"
    by (simp add: heap_set_def dict_contains_def delete_conv')
  have "delitem H c k = Inr ?H'"
    using a by (simp add: c lk delitem_def proxy_delitem_def dict_delitem_def)
  moreover have "getitem cb ?H' c k = Inr v"
    using a gone pr by (simp add: c lk except_KeyError_def)
  moreover have "\<forall>r. r \<noteq> data (obj c) \<longrightarrow> dicts ?H' r = dicts H r"
    by (simp add: c heap_set_def)
  ultimately show "\<exists>H'. delitem H c k = Inr H' \<and> getitem cb H' c k = Inr v \<and>
                 getitem cb H' p k = Inr v \<and>
                 \<not> dict_contains (dicts H' (data (obj c))) k \<and>
                 (\<forall>r. r \<noteq> data (obj c) \<longrightarrow> dicts H' r = dicts H r)"
    using gone pr by (auto simp: c)
qed

text \<open>
  On the example chain: \<^verbatim>\<open>theme\<close> is stored at the system level only, so deleting it
  at the game level raises KeyError although the key is in the chain; deleting the game's
  \<^verbatim>\<open>speed\<close> (7) exposes the runner's (3).
\<close>

theorem delitem_local_witness:
  "contains ex_heap ex_game ''theme'' \<and>
   delitem ex_heap ex_game ''theme'' = Inl KeyError \<and>
   proxy_delitem ex_heap 12 ''theme'' = Inl KeyError \<and>
   getitem ex_cb ex_heap ex_game ''speed'' = Inr (VInt 7) \<and>
   getitem ex_cb ex_heap ex_runner ''speed'' = Inr (VInt 3) \<and>
   (\<exists>H'. delitem ex_heap ex_game ''speed'' = Inr H' \<and>
         getitem ex_cb H' ex_game ''speed'' = Inr (VInt 3) \<and>
         getitem ex_cb H' ex_runner ''speed'' = Inr (VInt 3))"
proof -
  have k: "constructed ex_game" by (rule ex_game_constructed)
  have h: "parent ex_game = Some ex_runner \<and> data (obj ex_game) \<notin> set (stores ex_runner) \<and>
      map_of (getter_cache (obj ex_game)) ''speed'' = None \<and>
      dict_contains (dicts ex_heap (data (obj ex_game))) ''speed'' \<and>
      getitem ex_cb ex_heap ex_runner ''speed'' = Inr (VInt 3)"
    by (simp add: ex_defs dict_contains_def dict_getitem_def except_KeyError_def)
  have g: "getitem ex_cb ex_heap ex_game ''speed'' = Inr (VInt 7)"
    by (simp add: ex_defs dict_contains_def dict_getitem_def except_KeyError_def)
  have d: "data (obj ex_game) = 12" "contains ex_heap ex_game ''theme''"
    by (simp_all add: ex_defs dict_contains_def)
  have e: "\<not> dict_contains (dicts ex_heap 12) ''theme''"
    by (simp add: ex_heap_def dict_contains_def)
  note t1 = delitem_local [OF k, of ex_heap "''theme''" 12 ex_runner ex_cb "VInt 3", THEN conjunct1]
  note t2 = delitem_local [OF k, of ex_heap "''theme''" 12 ex_runner ex_cb "VInt 3",
      THEN conjunct2, THEN conjunct1]
  note t3 = delitem_local [OF k, of ex_heap "''speed''" 12 ex_runner ex_cb "VInt 3",
      THEN conjunct2, THEN conjunct2, THEN conjunct2, rule_format, OF h]
  have a1: "delitem ex_heap ex_game ''theme'' = Inl KeyError" using t1 d e by simp
  have a2: "proxy_delitem ex_heap 12 ''theme'' = Inl KeyError" using t2 e by simp
  have a3: "\<exists>H'. delitem ex_heap ex_game ''speed'' = Inr H' \<and>
         getitem ex_cb H' ex_game ''speed'' = Inr (VInt 3) \<and>
         getitem ex_cb H' ex_runner ''speed'' = Inr (VInt 3)" using t3 by blast
  show ?thesis using a1 a2 a3 d g h by blast
qed

text \<open>
  C6 as stated fails at two inputs. The game catalog gives \<^verbatim>\<open>speed\<close> a custom
  getter and the game level stores 7 over the runner's 3: after the deletion the game level
  reads what the getter returns, while the runner level reads 3. And a game level
  constructed with the runner's own dictionary as its data: the deletion at the game level
  removes the runner's entry too, and the game level then reads nothing (KeyError).
\<close>

theorem delitem_reexposure_counterexample:
  "CascadingConfig_init ex_heap (makedef getter_game_options) (Some 12) (Some ex_runner)
     = Inr (ex_getter_game, ex_heap) \<and>
   dict_contains (dicts ex_heap (data (obj ex_getter_game))) ''speed'' \<and>
   getitem ex_cb ex_heap ex_runner ''speed'' = Inr (VInt 3) \<and>
   delitem ex_heap ex_getter_game ''speed'' = Inr (heap_set ex_heap 12 []) \<and>
   getitem ex_cb (heap_set ex_heap 12 []) ex_getter_game ''speed'' = Inr (VStr ''computed'') \<and>
   getitem ex_cb (heap_set ex_heap 12 []) ex_runner ''speed'' = Inr (VInt 3) \<and>
   CascadingConfig_init ex_heap (makedef game_options) (Some 11) (Some ex_runner)
     = Inr (ex_shared_game, ex_heap) \<and>
   dict_contains (dicts ex_heap (data (obj ex_shared_game))) ''speed'' \<and>
   delitem ex_heap ex_shared_game ''speed'' = Inr (heap_set ex_heap 11 []) \<and>
   getitem ex_cb (heap_set ex_heap 11 []) ex_shared_game ''speed'' = Inl KeyError"
proof -
  have 1: "CascadingConfig_init ex_heap (makedef getter_game_options) (Some 12) (Some ex_runner)
     = Inr (ex_getter_game, ex_heap)"
    by (simp add: CascadingConfig_init_def ex_getter_game_def getter_game_options_def ex_defs)
  have 2: "CascadingConfig_init ex_heap (makedef game_options) (Some 11) (Some ex_runner)
     = Inr (ex_shared_game, ex_heap)"
    by (simp add: CascadingConfig_init_def ex_shared_game_def ex_defs)
  have 3: "dict_contains (dicts ex_heap (data (obj ex_getter_game))) ''speed''"
    "dict_contains (dicts ex_heap (data (obj ex_shared_game))) ''speed''"
    "getitem ex_cb ex_heap ex_runner ''speed'' = Inr (VInt 3)"
    by (simp_all add: ex_getter_game_def ex_shared_game_def ex_defs dict_contains_def
          dict_getitem_def except_KeyError_def)
  have 4: "delitem ex_heap ex_getter_game ''speed'' = Inr (heap_set ex_heap 12 [])"
    "delitem ex_heap ex_shared_game ''speed'' = Inr (heap_set ex_heap 11 [])"
    by (simp_all add: delitem_def proxy_delitem_def dict_delitem_def dict_contains_def
          ex_getter_game_def ex_shared_game_def ex_game_def ex_heap_def)
  have 5: "getitem ex_cb (heap_set ex_heap 12 []) ex_getter_game ''speed'' = Inr (VStr ''computed'')"
    "getitem ex_cb (heap_set ex_heap 12 []) ex_runner ''speed'' = Inr (VInt 3)"
    "getitem ex_cb (heap_set ex_heap 11 []) ex_shared_game ''speed'' = Inl KeyError"
    by (simp_all add: ex_getter_game_def ex_shared_game_def ex_defs heap_set_def dict_contains_def
          dict_getitem_def except_KeyError_def)
  show ?thesis using 1 2 3 4 5 by simp
qed

text \<open>
  C7. The system catalog gives \<^verbatim>\<open>banner\<close> a custom getter and a more specific
  catalog gives it a transform: no getter cache is built, \<^verbatim>\<open>build_getter_cache\<close>
  and with it the constructor raise NameError. (For \<^verbatim>\<open>default\<close> and
  \<^verbatim>\<open>validate\<close>, and for custom getters, the most specific catalog wins:
  \<open>build_definition_cache_most_specific\<close>, \<open>build_getter_cache_result\<close>.)
\<close>

theorem getter_cache_transform_raises:
  "most_specific od_getter ex_system ''banner'' = Some 1 \<and>
   most_specific od_transform
     (Config ((obj ex_game)\<lparr>defn := makedef transform_options\<rparr>) (Some ex_system)) ''banner'' = Some 0 \<and>
   build_getter_cache
     (Config ((obj ex_game)\<lparr>defn := makedef transform_options\<rparr>) (Some ex_system)) = Inl NameError \<and>
   CascadingConfig_init ex_heap (makedef transform_options) (Some 12) (Some ex_system) = Inl NameError"
  by (simp add: CascadingConfig_init_def transform_options_def ex_defs)

text \<open>
  C8. A wrapper whose identifier is the temporary marker and whose game level is a
  constructed TempGameConfig: assigning an identifier other than the marker succeeds, leaves
  the heap as it is, and installs a GameConfig with the same local store, the same
  definition, the same parent and the same caches (the new object differs only in its
  empty cascade cache), so every stored value reads as before; any later assignment to the
  wrapper raises the exception of the setter.
\<close>

theorem promotion:
  assumes "game_config_id self = Some TEMP_CONFIG"
    and "game_level self = Some (TempGameConfig c)"
    and "constructed c"
    and "v \<noteq> TEMP_CONFIG"
  shows "\<exists>g c'. game_config_id_setter CONFIG_DIR fs H self v
             = Inr (self\<lparr>game_config_id := Some v, game_level := Some g, config := g\<rparr>, H) \<and>
           g = GameConfig v (path_join CONFIG_DIR (''games/'' @ v @ ''.yml'')) c' \<and>
           data (obj c') = data (obj c) \<and> defn (obj c') = defn (obj c) \<and>
           parent c' = parent c \<and> constructed c' \<and>
           (\<forall>k. config_getitem cb H c' k = config_getitem cb H c k) \<and>
           (\<forall>fs' H' v'. game_config_id_setter CONFIG_DIR fs' H'
                (self\<lparr>game_config_id := Some v, game_level := Some g, config := g\<rparr>) v'
              = Inl Exception)"
proof -
  let ?c' = "Config ((obj c)\<lparr>cascade_cache := []\<rparr>) (parent c)"
  let ?g = "GameConfig v (path_join CONFIG_DIR (''games/'' @ v @ ''.yml'')) ?c'"
  have a: "assign_id CONFIG_DIR fs H c v = Inr (?g, H)"
    by (simp add: assign_id_def GameConfig_init_def ConfigFile_init_def constructed_reinit [OF assms(3)])
  have s: "game_config_id_setter CONFIG_DIR fs H self v
             = Inr (self\<lparr>game_config_id := Some v, game_level := Some ?g, config := ?g\<rparr>, H)"
    using assms(1,2) a by (simp add: game_config_id_setter_def)
  have k: "constructed ?c'"
    using assms(3) constructed_cascade_cache [of "obj c" "parent c" "[]"] by (cases c) simp
  have r: "config_getitem cb H ?c' k = config_getitem cb H c k" for k
    by (cases c; cases "parent c") simp_all
  have l: "game_config_id_setter CONFIG_DIR fs' H'
                (self\<lparr>game_config_id := Some v, game_level := Some ?g, config := ?g\<rparr>) v'
              = Inl Exception" for fs' H' v'
    using assms(4) by (simp add: game_config_id_setter_def)
  show ?thesis using s k r l by auto
qed

theorem promotion_witness:
  "\<exists>c'. game_config_id_setter ''/cfg'' (\<lambda>f. None) ex_heap ex_wrapper ''halflife2-173''
      = Inr (ex_wrapper\<lparr>game_config_id := Some ''halflife2-173'',
               game_level := Some (GameConfig ''halflife2-173'' ''/cfg/games/halflife2-173.yml'' c'),
               config := GameConfig ''halflife2-173'' ''/cfg/games/halflife2-173.yml'' c'\<rparr>, ex_heap) \<and>
     data (obj c') = 12 \<and> parent c' = Some ex_runner \<and>
     config_getitem ex_cb ex_heap c' ''speed'' = Inr (VInt 7) \<and>
     game_config_id_setter ''/cfg'' (\<lambda>f. None) ex_heap
        (ex_wrapper\<lparr>game_config_id := Some ''halflife2-173'',
               game_level := Some (GameConfig ''halflife2-173'' ''/cfg/games/halflife2-173.yml'' c'),
               config := GameConfig ''halflife2-173'' ''/cfg/games/halflife2-173.yml'' c'\<rparr>) ''other-1''
      = Inl Exception"
proof -
  have 1: "game_config_id ex_wrapper = Some TEMP_CONFIG"
    and 2: "game_level ex_wrapper = Some (TempGameConfig ex_game)"
    by (simp_all add: ex_wrapper_def)
  have 3: "constructed ex_game" by (rule ex_game_constructed)
  have 4: "''halflife2-173'' \<noteq> TEMP_CONFIG" by (simp add: TEMP_CONFIG_def)
  have p: "path_join ''/cfg'' (''games/'' @ ''halflife2-173'' @ ''.yml'') = ''/cfg/games/halflife2-173.yml''"
    by (simp add: path_join_def)
  have d: "data (obj ex_game) = 12" "parent ex_game = Some ex_runner"
    by (simp_all add: ex_game_def)
  have g: "config_getitem ex_cb ex_heap ex_game ''speed'' = Inr (VInt 7)"
    by (simp add: ex_defs dict_contains_def dict_getitem_def except_KeyError_def)
  from promotion [OF 1 2 3 4, of "''/cfg''" "\<lambda>f. None" ex_heap ex_cb]
  show ?thesis unfolding p d using g by metis
qed

text \<open>
  C9. With no file at the path, constructing a ConfigFile over a definition that has a
  transform raises NameError. (Without such a definition the missing file gives a fresh
  empty store: \<open>ConfigFile_init_missing_file\<close>, \<open>CascadingConfig_init_fresh_store\<close>.)
\<close>

theorem missing_file_construction_raises:
  "ConfigFile_init (\<lambda>f. None) ex_heap (makedef transform_options) ''/cfg/runners/wine.yml''
     (Some ex_system) None = Inl NameError"
  by (simp add: ConfigFile_init_def CascadingConfig_init_def transform_options_def alloc_def ex_defs)




end
